theory Spec2Isabelle
  imports Complex_Main
begin

section \<open>JavaScript values and objects\<close>

text \<open>
  The extension \<^verbatim>\<open>web/wavespeed_dynamic_real_node.js\<close> is embedded function by
  function. A JavaScript value is a \<open>jsval\<close>; numbers are rationals (the embedded code
  stores and compares numbers, it performs no floating-point arithmetic on them). A plain
  object is an association list with distinct keys, in the order \<^verbatim>\<open>Object.keys\<close>
  enumerates it; \<open>obj_get\<close> is the property read and \<open>obj_set\<close> the assignment
  \<^verbatim>\<open>obj[k] = v\<close>, which keeps the position of an existing key and appends a new one.
  Strings are lists of 8-bit characters.
\<close>

datatype jsval =
    JUndefined
  | JNull
  | JBool bool
  | JNum rat
  | JStr string
  | JArr "jsval list"
  | JObj "(string \<times> jsval) list"

fun truthy :: "jsval \<Rightarrow> bool" where
  "truthy JUndefined = False"
| "truthy JNull = False"
| "truthy (JBool b) = b"
| "truthy (JNum n) = (n \<noteq> 0)"
| "truthy (JStr s) = (s \<noteq> [])"
| "truthy (JArr xs) = True"
| "truthy (JObj kvs) = True"

definition obj_get :: "(string \<times> 'a) list \<Rightarrow> string \<Rightarrow> 'a option" where
  "obj_get obj k = map_of obj k"

fun obj_set :: "(string \<times> 'a) list \<Rightarrow> string \<Rightarrow> 'a \<Rightarrow> (string \<times> 'a) list" where
  "obj_set [] k v = [(k, v)]"
| "obj_set ((k', v') # rest) k v =
     (if k' = k then (k, v) # rest else (k', v') # obj_set rest k v)"

text \<open>\<^verbatim>\<open>String.prototype.toLowerCase\<close> on the ASCII letters.\<close>

definition lower_char :: "char \<Rightarrow> char" where
  "lower_char c =
     (let n = (of_char c :: nat) in if 65 \<le> n \<and> n \<le> 90 then char_of (n + 32) else c)"

definition toLowerCase :: "string \<Rightarrow> string" where
  "toLowerCase s = map lower_char s"

text \<open>\<^verbatim>\<open>s.includes(sub)\<close> and \<^verbatim>\<open>s.startsWith(p)\<close>.\<close>

fun str_includes :: "string \<Rightarrow> string \<Rightarrow> bool" where
  "str_includes [] sub = (sub = [])"
| "str_includes (c # cs) sub = (take (length sub) (c # cs) = sub \<or> str_includes cs sub)"

definition startsWith :: "string \<Rightarrow> string \<Rightarrow> bool" where
  "startsWith s p = (take (length p) s = p)"

text \<open>The decimal text of a natural number, as a template literal prints it.\<close>

definition digit_char :: "nat \<Rightarrow> char" where
  "digit_char d = char_of (48 + d)"

function string_of_nat :: "nat \<Rightarrow> string" where
  "string_of_nat n =
     (if n < 10 then [digit_char n] else string_of_nat (n div 10) @ [digit_char (n mod 10)])"
  by pat_completeness auto
termination
  by (relation "measure (\<lambda>n. n)") auto

definition is_digit :: "char \<Rightarrow> bool" where
  "is_digit c = (let n = (of_char c :: nat) in 48 \<le> n \<and> n \<le> 57)"

text \<open>The test \<^verbatim>\<open>name.match(/^param_\d+$/)\<close>.\<close>

definition is_placeholder_name :: "string \<Rightarrow> bool" where
  "is_placeholder_name s =
     (take 6 s = ''param_'' \<and> drop 6 s \<noteq> [] \<and> list_all is_digit (drop 6 s))"

section \<open>Parameter descriptors and the placeholder pool\<close>

text \<open>
  A parameter object as \<^verbatim>\<open>parseModelParameters\<close> builds it (lines 107--129).
  \<open>param_arrayItems\<close> is \<^verbatim>\<open>prop.items\<close>: \<open>None\<close> when the schema has none, otherwise
  the \<^verbatim>\<open>type\<close> member of the items object (\<open>None\<close> when that is missing).
\<close>

record param =
  param_name :: string
  param_displayName :: string
  param_type :: string
  param_required :: bool
  param_default :: jsval
  param_description :: string
  param_isArray :: bool
  param_arrayItems :: "string option option"
  param_options :: "jsval list option"
  param_min :: jsval
  param_max :: jsval
  param_step :: "rat option"

text \<open>The binding object \<^verbatim>\<open>placeholderInfo\<close> of \<^verbatim>\<open>allocatePlaceholder\<close> (lines 1486--1492).\<close>

record placeholderInfo =
  placeholder :: string
  info_type :: string
  originalType :: string
  info_isArray :: bool
  arrayItemType :: "string option"

text \<open>
  The three hidden backend fields. Each holds a JSON text; the model keeps the object
  that text encodes (\<open>None\<close>: the hidden field has not been created yet).
\<close>

record hiddenWidgets =
  hw_model_id :: "string option"
  hw_request_json :: "(string \<times> jsval) list option"
  hw_param_map :: "(string \<times> placeholderInfo) list option"

record category_entry =
  cat_name :: string
  cat_value :: string

text \<open>\<^verbatim>\<open>node.wavespeedState\<close> (lines 230--241, and \<^verbatim>\<open>connectedParams\<close> of line 1661).\<close>

record wavespeedState =
  modelId :: string
  category :: string
  parameters :: "param list"
  parameterValues :: "(string \<times> jsval) list"
  categoryList :: "category_entry list option"
  isInitialized :: bool
  paramMapping :: "(string \<times> placeholderInfo) list"
  usedPlaceholders :: "string set"
  nextPlaceholderIndex :: nat
  hiddenWidgets :: hiddenWidgets
  connectedParams :: "(string \<times> placeholderInfo) list option"

definition placeholder_name :: "nat \<Rightarrow> string" where
  "placeholder_name i = ''param_'' @ string_of_nat i"

text \<open>\<^verbatim>\<open>updateParamMapWidget\<close>: the hidden \<^verbatim>\<open>param_map\<close> field receives the mapping.\<close>

definition updateParamMapWidget :: "wavespeedState \<Rightarrow> wavespeedState" where
  "updateParamMapWidget st =
     st\<lparr>hiddenWidgets := (hiddenWidgets st)\<lparr>hw_param_map := Some (paramMapping st)\<rparr>\<rparr>"

text \<open>
  The scan of \<^verbatim>\<open>allocatePlaceholder\<close> (lines 1453--1460):
  \<^verbatim>\<open>for (let i = nextPlaceholderIndex; i <= 20; i++)\<close>, stopping at the first
  candidate that is not in \<^verbatim>\<open>usedPlaceholders\<close>.
\<close>

function allocatePlaceholder_scan :: "string set \<Rightarrow> nat \<Rightarrow> nat option" where
  "allocatePlaceholder_scan used i =
     (if i \<le> 20
      then (if placeholder_name i \<notin> used then Some i
            else allocatePlaceholder_scan used (i + 1))
      else None)"
  by pat_completeness auto
termination
  by (relation "measure (\<lambda>(used, i). 21 - i)") auto

definition resolve_paramType :: "param \<Rightarrow> string" where
  "resolve_paramType p =
     (if param_isArray p
      then (let itemType =
                  (case param_arrayItems p of
                     Some (Some t) \<Rightarrow> (if toLowerCase t = [] then ''string'' else toLowerCase t)
                   | _ \<Rightarrow> ''string'')
            in if itemType = ''number'' \<or> itemType = ''integer'' \<or> itemType = ''float''
               then ''array-int'' else ''array-str'')
      else (if toLowerCase (param_type p) = [] then ''string'' else toLowerCase (param_type p)))"

text \<open>
  \<^verbatim>\<open>allocatePlaceholder(node, param)\<close> reads and writes \<^verbatim>\<open>node.wavespeedState\<close> only;
  the model takes that state and returns the binding (\<open>None\<close> for \<^verbatim>\<open>null\<close>) with the
  state after the call.
\<close>

definition allocatePlaceholder ::
  "wavespeedState \<Rightarrow> param \<Rightarrow> placeholderInfo option \<times> wavespeedState" where
  "allocatePlaceholder st p =
     (let paramName = param_name p in
      case obj_get (paramMapping st) paramName of
        Some existing \<Rightarrow> (Some existing, st)
      | None \<Rightarrow>
          (case allocatePlaceholder_scan (usedPlaceholders st) (nextPlaceholderIndex st) of
             None \<Rightarrow> (None, st)
           | Some i \<Rightarrow>
               (let placeholderName = placeholder_name i;
                    st1 = st\<lparr>nextPlaceholderIndex := i + 1\<rparr>;
                    info = \<lparr>placeholder = placeholderName,
                            info_type = resolve_paramType p,
                            originalType = param_type p,
                            info_isArray = param_isArray p,
                            arrayItemType =
                              (case param_arrayItems p of Some t \<Rightarrow> t | None \<Rightarrow> None)\<rparr>;
                    st2 = st1\<lparr>paramMapping := obj_set (paramMapping st1) paramName info,
                              usedPlaceholders := insert placeholderName (usedPlaceholders st1)\<rparr>
                in (Some info, updateParamMapWidget st2))))"

text \<open>\<^verbatim>\<open>clearParamMapping\<close> (lines 1840--1846).\<close>

definition clearParamMapping :: "wavespeedState \<Rightarrow> wavespeedState" where
  "clearParamMapping st =
     updateParamMapWidget
       (st\<lparr>paramMapping := [], usedPlaceholders := {}, nextPlaceholderIndex := 1\<rparr>)"

section \<open>Schema parser\<close>

text \<open>
  One entry of \<^verbatim>\<open>inputSchema.properties\<close>, with the members the parser reads.
  \<open>prop_disabled\<close> and \<open>prop_hidden\<close> are the truthiness of the two flags,
  \<open>prop_description\<close> is \<^verbatim>\<open>prop.description || ""\<close>.
\<close>

record schema_prop =
  prop_type :: "string option"
  prop_enum :: "jsval list option"
  prop_default :: jsval
  prop_description :: string
  prop_disabled :: bool
  prop_hidden :: bool
  prop_minimum :: jsval
  prop_maximum :: jsval
  prop_items :: "string option option"

text \<open>
  The schema object. \<open>properties\<close> lists the properties in the order
  \<^verbatim>\<open>Object.keys\<close> gives them; \<open>x_order_properties\<close> is the member
  \<^verbatim>\<open>'x-order-properties'\<close> (\<open>None\<close> when it is missing or \<^verbatim>\<open>null\<close>).
\<close>

record inputSchema =
  properties :: "(string \<times> schema_prop) list option"
  required :: "string list option"
  x_order_properties :: "string list option"







definition shouldCreateInputPort :: "param \<Rightarrow> bool" where
  "shouldCreateInputPort p = (param_type p \<in> set [''STRING'', ''INT'', ''FLOAT'', ''BOOLEAN''])"


section \<open>Ports, controls and the node\<close>

text \<open>
  An entry of \<^verbatim>\<open>node.inputs\<close>. \<open>port_link\<close> is the link id (\<open>None\<close> for
  \<^verbatim>\<open>null\<close>); \<open>port_placeholder\<close> is the marker \<^verbatim>\<open>_wavespeed_placeholder\<close>, which is
  \<^verbatim>\<open>true\<close> on a placeholder slot and the slot's name on a visible pseudo-port.
\<close>

record port =
  port_name :: string
  port_type :: string
  port_link :: "nat option"
  port_hidden :: bool
  port_dynamic :: bool
  port_param_name :: "string option"
  port_placeholder :: jsval

text \<open>The options object handed to \<^verbatim>\<open>node.addWidget\<close>; \<open>JUndefined\<close> and \<open>None\<close> are absent members.\<close>

record widget_options =
  opt_precision :: jsval
  opt_step :: jsval
  opt_min :: jsval
  opt_max :: jsval
  opt_values :: "jsval list option"
  opt_on :: "string option"
  opt_off :: "string option"
  opt_serialize :: "bool option"

text \<open>
  A control. \<open>w_id\<close> stands for the identity of the JavaScript object, so that the
  code's later writes through a reference (\<^verbatim>\<open>widget.value = ...\<close>,
  \<^verbatim>\<open>node.categoryWidget.value = ...\<close>) reach the entry of \<^verbatim>\<open>node.widgets\<close>. The
  \<^verbatim>\<open>_wavespeed_*\<close> markers keep their names; \<open>wavespeed_input_pair\<close> holds the paired
  port as it currently is. Change callbacks are closures and are not data of the model.
\<close>

record widget =
  w_id :: nat
  w_type :: string
  w_name :: string
  w_value :: jsval
  w_options :: widget_options
  w_hidden :: bool
  wavespeed_dynamic :: bool
  wavespeed_base :: bool
  wavespeed_param_name :: "string option"
  wavespeed_param_index :: "nat option"
  wavespeed_required :: "bool option"
  wavespeed_is_array :: bool
  wavespeed_array_item_type :: "string option"
  wavespeed_seed_button :: bool
  wavespeed_input_pair :: "port option"

text \<open>
  The node: its control list, the port list behind the \<^verbatim>\<open>inputs\<close> accessor
  (\<^verbatim>\<open>_actualInputs\<close>), the three tracking arrays of \<^verbatim>\<open>setupPersistentInputHiding\<close>,
  the dynamic state and the two selector references. Geometry
  (\<^verbatim>\<open>computeSize\<close>, \<^verbatim>\<open>setSize\<close>, canvas redraws) is not part of the model.
\<close>

record node =
  widgets :: "widget list"
  inputs :: "port list"
  wavespeed_hiddenInputs :: "port list"
  wavespeed_allInputs :: "port list"
  wavespeed_originalInputs :: "port list"
  wavespeedState :: wavespeedState
  categoryWidget :: "nat option"
  modelWidget :: "nat option"

definition no_options :: widget_options where
  "no_options =
     \<lparr>opt_precision = JUndefined, opt_step = JUndefined, opt_min = JUndefined,
      opt_max = JUndefined, opt_values = None, opt_on = None, opt_off = None,
      opt_serialize = None\<rparr>"

text \<open>
  The host's \<^verbatim>\<open>node.addWidget(type, name, value, callback, options)\<close>: a new control
  with these members is appended to \<^verbatim>\<open>node.widgets\<close> and returned. Its identity is
  one that no control of the list has.
\<close>

definition fresh_widget_id :: "node \<Rightarrow> nat" where
  "fresh_widget_id n = Suc (foldr max (map w_id (widgets n)) 0)"

definition addWidget ::
  "node \<Rightarrow> string \<Rightarrow> string \<Rightarrow> jsval \<Rightarrow> widget_options \<Rightarrow> widget \<times> node" where
  "addWidget n type name value options =
     (let w = \<lparr>w_id = fresh_widget_id n, w_type = type, w_name = name, w_value = value,
                w_options = options, w_hidden = False, wavespeed_dynamic = False,
                wavespeed_base = False, wavespeed_param_name = None,
                wavespeed_param_index = None, wavespeed_required = None,
                wavespeed_is_array = False, wavespeed_array_item_type = None,
                wavespeed_seed_button = False, wavespeed_input_pair = None\<rparr>
      in (w, n\<lparr>widgets := widgets n @ [w]\<rparr>))"

text \<open>A write to members of the control object with identity \<open>i\<close>, and the read of that object.\<close>

definition update_widget :: "nat \<Rightarrow> (widget \<Rightarrow> widget) \<Rightarrow> node \<Rightarrow> node" where
  "update_widget i f n = n\<lparr>widgets := map (\<lambda>w. if w_id w = i then f w else w) (widgets n)\<rparr>"

definition get_widget :: "nat \<Rightarrow> node \<Rightarrow> widget option" where
  "get_widget i n = find (\<lambda>w. w_id w = i) (widgets n)"

text \<open>The operators \<^verbatim>\<open>a ?? b\<close> and \<^verbatim>\<open>a || b\<close>.\<close>

definition nullish :: "jsval \<Rightarrow> jsval \<Rightarrow> jsval" where
  "nullish a b = (if a = JUndefined \<or> a = JNull then b else a)"

definition js_or :: "jsval \<Rightarrow> jsval \<Rightarrow> jsval" where
  "js_or a b = (if truthy a then a else b)"

text \<open>\<^verbatim>\<open>_updateVisibleInputs\<close> (lines 418--449) and the setter of \<^verbatim>\<open>node.inputs\<close>.\<close>

definition mark_placeholder :: "port \<Rightarrow> port" where
  "mark_placeholder q = q\<lparr>port_hidden := True, port_placeholder := JBool True\<rparr>"

definition updateVisibleInputs :: "node \<Rightarrow> node" where
  "updateVisibleInputs n =
     (let allInputs = map (\<lambda>q. if is_placeholder_name (port_name q) then mark_placeholder q else q)
                          (inputs n);
          visibleInputs = filter (\<lambda>q. \<not> is_placeholder_name (port_name q)) allInputs;
          hiddenInputs = filter (\<lambda>q. is_placeholder_name (port_name q)) allInputs
      in n\<lparr>wavespeed_hiddenInputs := hiddenInputs, wavespeed_allInputs := allInputs,
            inputs := visibleInputs\<rparr>)"

definition set_inputs :: "node \<Rightarrow> port list \<Rightarrow> node" where
  "set_inputs n newInputs = updateVisibleInputs (n\<lparr>inputs := newInputs\<rparr>)"

section \<open>Creating the controls of a parameter\<close>

text \<open>\<^verbatim>\<open>createSeedWidget\<close> (lines 1532--1567): the number control and its two buttons.\<close>

definition createSeedWidget :: "node \<Rightarrow> param \<Rightarrow> string \<Rightarrow> nat \<times> node" where
  "createSeedWidget n p displayName =
     (let (widget, n1) =
            addWidget n ''number'' displayName (nullish (param_default p) (JNum (- 1)))
              (no_options\<lparr>opt_precision := JNum 0, opt_step := JNum 1, opt_min := JNum (- 3),
                          opt_max := JNum 1125899906842624\<rparr>);
          (randomButton, n2) =
            addWidget n1 ''button'' '' Random Seed'' (JStr []) (no_options\<lparr>opt_serialize := Some False\<rparr>);
          (autoRandomButton, n3) =
            addWidget n2 ''button'' '' Auto Random'' (JStr []) (no_options\<lparr>opt_serialize := Some False\<rparr>);
          mark = (\<lambda>w. w\<lparr>wavespeed_dynamic := True, wavespeed_seed_button := True,
                         wavespeed_param_name := Some (param_name p)\<rparr>);
          n4 = update_widget (w_id randomButton) mark n3;
          n5 = update_widget (w_id autoRandomButton) mark n4
      in (w_id widget, n5))"

text \<open>The lookup of the placeholder port in \<^verbatim>\<open>createWidgetInputPort\<close> (lines 1353--1373).\<close>

definition find_placeholder_input :: "node \<Rightarrow> string \<Rightarrow> port option" where
  "find_placeholder_input n placeholderName =
     (let named = (\<lambda>q. port_name q = placeholderName) in
      case find named (wavespeed_hiddenInputs n) of
        Some q \<Rightarrow> Some q
      | None \<Rightarrow>
          (case find named (wavespeed_allInputs n) of
             Some q \<Rightarrow> Some q
           | None \<Rightarrow>
               (case find named (wavespeed_originalInputs n) of
                  Some q \<Rightarrow> Some q
                | None \<Rightarrow> find named (inputs n))))"

text \<open>
  \<^verbatim>\<open>createWidgetInputPort\<close> (lines 1341--1440). The host's \<^verbatim>\<open>node.addInput\<close> appends
  the new port to \<^verbatim>\<open>node.inputs\<close> and returns it, so the manual fallback after it is
  not reached. The argument \<open>wid\<close> is the identity of the control.
\<close>

definition createWidgetInputPort :: "node \<Rightarrow> nat \<Rightarrow> param \<Rightarrow> port option \<times> node" where
  "createWidgetInputPort n wid p =
     (case allocatePlaceholder (wavespeedState n) p of
        (None, st') \<Rightarrow> (None, n\<lparr>wavespeedState := st'\<rparr>)
      | (Some placeholderInfo, st') \<Rightarrow>
          (let n1 = n\<lparr>wavespeedState := st'\<rparr>;
               placeholderName = placeholder placeholderInfo
           in case find_placeholder_input n1 placeholderName of
                None \<Rightarrow> (None, n1)
              | Some placeholderInput \<Rightarrow>
                  (let addedInput =
                         \<lparr>port_name = param_name p,
                          port_type = (if param_type p = ''INT'' \<or> param_type p = ''FLOAT''
                                       then ''NUMBER'' else param_type p),
                          port_link = None, port_hidden = False, port_dynamic = True,
                          port_param_name = Some (param_name p),
                          port_placeholder = JStr placeholderName\<rparr>;
                       n2 = n1\<lparr>inputs := inputs n1 @ [addedInput]\<rparr>;
                       n3 = update_widget wid (\<lambda>w. w\<lparr>wavespeed_input_pair := Some addedInput\<rparr>) n2
                   in (Some addedInput, n3))))"

text \<open>
  \<^verbatim>\<open>createParameterWidget\<close> (lines 1176--1338). \<open>create_control\<close> is its chain of
  branches (lines 1185--1295), in the source's order, giving the identity of the control
  \<^verbatim>\<open>widget\<close>; \<^verbatim>\<open>ComfyWidgets["STRING"]\<close> with \<^verbatim>\<open>multiline\<close> appends a control of
  type \<^verbatim>\<open>customtext\<close> (the type \<^verbatim>\<open>computeSize\<close> tests for, line 278). The host calls
  are taken not to throw, so the \<^verbatim>\<open>catch\<close> branch is not entered. The result is the
  control as the function returns it, and the node after the call.
\<close>

definition isMultiline :: "param \<Rightarrow> bool" where
  "isMultiline p =
     (let paramName = toLowerCase (param_name p);
          description = toLowerCase (param_description p)
      in str_includes description ''prompt'' \<or> str_includes description ''text'' \<or>
         str_includes description ''description'' \<or> str_includes paramName ''prompt'' \<or>
         str_includes paramName ''description'' \<or> str_includes paramName ''text'' \<or>
         str_includes paramName ''instruction'' \<or> str_includes paramName ''content'' \<or>
         str_includes paramName ''image'' \<or>
         (case param_default p of JStr s \<Rightarrow> length s > 50 | _ \<Rightarrow> False))"

definition create_control :: "node \<Rightarrow> param \<Rightarrow> string \<Rightarrow> nat \<times> node" where
  "create_control n p displayName =
     (let paramName = toLowerCase (param_name p) in
      if paramName = ''seed'' \<or> str_includes paramName ''seed''
      then createSeedWidget n p displayName
      else if param_type p = ''BOOLEAN''
      then (let (w, m) = addWidget n ''toggle'' displayName
                           (nullish (param_default p) (JBool False))
                           (no_options\<lparr>opt_on := Some ''true'', opt_off := Some ''false''\<rparr>)
            in (w_id w, m))
      else if param_type p = ''STRING''
      then (let isArray = param_isArray p;
                arrayTooltip = (if isArray then '' (comma-separated)'' else []);
                (w, m) =
                  (if isMultiline p \<or> isArray
                   then addWidget n ''customtext'' (displayName @ arrayTooltip)
                          (js_or (param_default p) (JStr [])) no_options
                   else addWidget n ''text'' (displayName @ arrayTooltip)
                          (js_or (param_default p) (JStr [])) no_options);
                m1 = (if isArray
                      then update_widget (w_id w)
                             (\<lambda>x. x\<lparr>wavespeed_is_array := True,
                                     wavespeed_array_item_type :=
                                       Some (case param_arrayItems p of
                                               Some (Some t) \<Rightarrow> (if t = [] then ''string'' else t)
                                             | _ \<Rightarrow> ''string'')\<rparr>) m
                      else m)
            in (w_id w, m1))
      else (case (if param_type p = ''COMBO'' then param_options p else None) of
              Some opts \<Rightarrow>
                (let (w, m) = addWidget n ''combo'' displayName
                                (js_or (js_or (param_default p)
                                          (case opts of [] \<Rightarrow> JUndefined | o1 # _ \<Rightarrow> o1))
                                       (JStr []))
                                (no_options\<lparr>opt_values := Some opts\<rparr>)
                 in (w_id w, m))
            | None \<Rightarrow>
                (if param_type p = ''INT'' \<or> param_type p = ''FLOAT''
                 then (let isFloat = (param_type p = ''FLOAT'');
                           options0 = no_options
                             \<lparr>opt_precision := JNum (if isFloat then 2 else 0),
                              opt_step := (case param_step p of Some s \<Rightarrow> JNum s
                                           | None \<Rightarrow> JNum (if isFloat then 1 / 100 else 1))\<rparr>;
                           options1 = (if param_min p \<noteq> JUndefined
                                       then options0\<lparr>opt_min := param_min p\<rparr> else options0);
                           options2 = (if param_max p \<noteq> JUndefined
                                       then options1\<lparr>opt_max := param_max p\<rparr> else options1);
                           (w, m) = addWidget n ''number'' displayName
                                      (nullish (param_default p) (JNum 0)) options2
                       in (w_id w, m))
                 else (let (w, m) = addWidget n ''text'' displayName
                                      (js_or (param_default p) (JStr [])) no_options
                       in (w_id w, m)))))"

definition createParameterWidget :: "node \<Rightarrow> param \<Rightarrow> nat \<Rightarrow> widget option \<times> node" where
  "createParameterWidget n p paramIndex =
     (let displayName = (if param_required p then ''* '' else []) @ param_displayName p;
          (wid, n1) = create_control n p displayName;
          n2 = update_widget wid
                 (\<lambda>w. w\<lparr>wavespeed_dynamic := True, wavespeed_param_name := Some (param_name p),
                         wavespeed_param_index := Some paramIndex,
                         wavespeed_required := Some (param_required p)\<rparr>) n1;
          n3 = (if shouldCreateInputPort p then snd (createWidgetInputPort n2 wid p) else n2)
      in (get_widget wid n3, n3))"

section \<open>Collecting the values of the controls\<close>

text \<open>
  \<^verbatim>\<open>String.prototype.trim\<close> (on the ASCII white space) and \<^verbatim>\<open>split(',')\<close>.
\<close>

definition is_space :: "char \<Rightarrow> bool" where
  "is_space c = (let k = (of_char c :: nat) in k = 32 \<or> (9 \<le> k \<and> k \<le> 13))"

definition js_trim :: "string \<Rightarrow> string" where
  "js_trim s = rev (dropWhile is_space (rev (dropWhile is_space s)))"

fun split_on :: "char \<Rightarrow> string \<Rightarrow> string list" where
  "split_on c [] = [[]]"
| "split_on c (x # xs) =
     (if x = c then [] # split_on c xs
      else (case split_on c xs of
              [] \<Rightarrow> [[x]]
            | piece # pieces \<Rightarrow> (x # piece) # pieces))"

text \<open>
  The array conversion of \<^verbatim>\<open>collectParameterValues\<close> (lines 1627--1638). The built-in
  \<^verbatim>\<open>parseFloat\<close> is the parameter \<open>pf\<close>: \<open>None\<close> is \<^verbatim>\<open>NaN\<close>.
\<close>

definition convert_array_value :: "(string \<Rightarrow> rat option) \<Rightarrow> string option \<Rightarrow> string \<Rightarrow> jsval" where
  "convert_array_value pf array_item_type value =
     (let arrayValue = filter (\<lambda>item. item \<noteq> []) (map js_trim (split_on CHR '','' value));
          itemType = (case array_item_type of
                        Some t \<Rightarrow> (if t = [] then ''string'' else t)
                      | None \<Rightarrow> ''string'')
      in if itemType = ''number''
         then JArr (map (\<lambda>item. case pf item of None \<Rightarrow> JStr item | Some num \<Rightarrow> JNum num) arrayValue)
         else JArr (map JStr arrayValue))"

text \<open>The truthiness of \<^verbatim>\<open>widget._wavespeed_param_name\<close>.\<close>

definition has_param_name :: "widget \<Rightarrow> bool" where
  "has_param_name w = (case wavespeed_param_name w of Some s \<Rightarrow> s \<noteq> [] | None \<Rightarrow> False)"

definition hasInputConnection :: "widget \<Rightarrow> bool" where
  "hasInputConnection w =
     (case wavespeed_input_pair w of
        None \<Rightarrow> False
      | Some pairedInput \<Rightarrow> (case port_link pairedInput of None \<Rightarrow> False | Some l \<Rightarrow> l \<noteq> 0))"

text \<open>
  The body of the loop of \<^verbatim>\<open>collectParameterValues\<close> (lines 1603--1658) for one
  control; the pair is \<^verbatim>\<open>(widgetValues, connectedParams)\<close>.
\<close>

definition collect_widget ::
  "(string \<Rightarrow> rat option) \<Rightarrow> (string \<times> placeholderInfo) list \<Rightarrow> widget \<Rightarrow>
   (string \<times> jsval) list \<times> (string \<times> placeholderInfo) list \<Rightarrow>
   (string \<times> jsval) list \<times> (string \<times> placeholderInfo) list" where
  "collect_widget pf mapping w acc =
     (case acc of (widgetValues, connParams) \<Rightarrow>
      (case wavespeed_param_name w of
         None \<Rightarrow> acc
       | Some paramName \<Rightarrow>
           (if paramName = [] \<or> w_hidden w then acc
            else if hasInputConnection w
            then (case obj_get mapping paramName of
                    None \<Rightarrow> acc
                  | Some placeholderInfo \<Rightarrow>
                      (if placeholder placeholderInfo \<noteq> []
                       then (widgetValues, obj_set connParams paramName placeholderInfo)
                       else acc))
            else (let value = w_value w in
                  if value \<noteq> JUndefined \<and> value \<noteq> JNull
                  then (let value' =
                              (case value of
                                 JStr s \<Rightarrow>
                                   (if wavespeed_is_array w \<and> js_trim s \<noteq> []
                                    then convert_array_value pf (wavespeed_array_item_type w) s
                                    else value)
                               | _ \<Rightarrow> value)
                        in if w_type w = ''string'' \<and>
                              (case value' of JStr s \<Rightarrow> js_trim s = [] | _ \<Rightarrow> False)
                           then (if wavespeed_required w = Some True
                                 then (obj_set widgetValues paramName value', connParams)
                                 else acc)
                           else if w_type w = ''boolean'' \<or> value' \<noteq> JStr []
                           then (obj_set widgetValues paramName value', connParams)
                           else acc)
                  else if wavespeed_required w = Some True
                  then (obj_set widgetValues paramName value, connParams)
                  else acc))))"

text \<open>\<^verbatim>\<open>collectParameterValues\<close>: the collected values, and the node with \<^verbatim>\<open>connectedParams\<close> stored.\<close>

definition collectParameterValues ::
  "(string \<Rightarrow> rat option) \<Rightarrow> node \<Rightarrow> (string \<times> jsval) list \<times> node" where
  "collectParameterValues pf n =
     (let (widgetValues, connParams) =
            foldl (\<lambda>acc w. collect_widget pf (paramMapping (wavespeedState n)) w acc) ([], [])
              (widgets n)
      in (widgetValues,
          n\<lparr>wavespeedState := (wavespeedState n)\<lparr>connectedParams := Some connParams\<rparr>\<rparr>))"

text \<open>
  The object a \<^verbatim>\<open>JSON.stringify\<close> text of an object encodes: a member whose value is
  \<^verbatim>\<open>undefined\<close> is left out of the text.
\<close>

definition JSON_stringify_object :: "(string \<times> jsval) list \<Rightarrow> (string \<times> jsval) list" where
  "JSON_stringify_object obj = filter (\<lambda>(k, v). v \<noteq> JUndefined) obj"

text \<open>\<^verbatim>\<open>updateRequestJsonWidget\<close> (lines 1570--1595).\<close>

definition updateRequestJsonWidget :: "(string \<Rightarrow> rat option) \<Rightarrow> node \<Rightarrow> node" where
  "updateRequestJsonWidget pf n =
     (let (values, n1) = collectParameterValues pf n;
          st = wavespeedState n1
      in n1\<lparr>wavespeedState :=
              st\<lparr>hiddenWidgets := (hiddenWidgets st)\<lparr>hw_request_json := Some (JSON_stringify_object values)\<rparr>\<rparr>\<rparr>)"

text \<open>\<^verbatim>\<open>collectParameterMetadata\<close> (lines 1667--1681).\<close>

record parameterMetadata =
  md_isArray :: bool
  md_arrayItemType :: string

definition collectParameterMetadata :: "node \<Rightarrow> (string \<times> parameterMetadata) list" where
  "collectParameterMetadata n =
     foldl (\<lambda>metadata w.
              (case wavespeed_param_name w of
                 None \<Rightarrow> metadata
               | Some paramName \<Rightarrow>
                   (if paramName = [] \<or> w_hidden w then metadata
                    else obj_set metadata paramName
                           \<lparr>md_isArray = wavespeed_is_array w,
                            md_arrayItemType =
                              (case wavespeed_array_item_type w of
                                 Some t \<Rightarrow> (if t = [] then ''string'' else t)
                               | None \<Rightarrow> ''string'')\<rparr>)))
       [] (widgets n)"

section \<open>Clearing and rebuilding the parameter controls\<close>

text \<open>\<^verbatim>\<open>updateOriginalModelIdWidget\<close> (lines 974--991).\<close>

definition updateOriginalModelIdWidget :: "node \<Rightarrow> string \<Rightarrow> node" where
  "updateOriginalModelIdWidget n mid =
     n\<lparr>wavespeedState :=
         (wavespeedState n)\<lparr>hiddenWidgets :=
            (hiddenWidgets (wavespeedState n))\<lparr>hw_model_id := Some mid\<rparr>\<rparr>\<rparr>"

text \<open>
  \<^verbatim>\<open>clearModelParameters\<close> (lines 1698--1837). \<^verbatim>\<open>nodeCreated\<close> installs
  \<^verbatim>\<open>_updateVisibleInputs\<close> and \<^verbatim>\<open>_wavespeed_originalInputs\<close> before any call, so the
  branch of the input filtering system is the one taken. The port list is emptied
  through the setter, the original placeholder ports are reset, and the closing
  \<^verbatim>\<open>_updateVisibleInputs()\<close> recomputes the tracking arrays from the emptied list.
\<close>

definition reset_placeholder :: "port \<Rightarrow> port" where
  "reset_placeholder q = q\<lparr>port_link := None, port_hidden := True, port_placeholder := JBool True\<rparr>"

definition clearModelParameters :: "(string \<Rightarrow> rat option) \<Rightarrow> node \<Rightarrow> node" where
  "clearModelParameters pf n =
     (let n1 = n\<lparr>wavespeedState := (wavespeedState n)\<lparr>parameters := [], parameterValues := []\<rparr>\<rparr>;
          baseWidgets = filter (\<lambda>w. wavespeed_base w \<or>
                                     (w_name w = ''Category'' \<or> w_name w = ''Model'') \<or>
                                     (\<not> wavespeed_dynamic w \<and> \<not> has_param_name w \<and>
                                      \<not> wavespeed_seed_button w)) (widgets n1);
          n2 = n1\<lparr>widgets := baseWidgets\<rparr>;
          n3 = (set_inputs n2 [])\<lparr>wavespeed_hiddenInputs := []\<rparr>;
          original = map (\<lambda>q. if is_placeholder_name (port_name q) then reset_placeholder q else q)
                         (wavespeed_originalInputs n3);
          placeholderInputs = filter (\<lambda>q. is_placeholder_name (port_name q)) original;
          n4 = n3\<lparr>wavespeed_originalInputs := original, wavespeed_allInputs := placeholderInputs,
                  wavespeed_hiddenInputs := placeholderInputs\<rparr>;
          n5 = updateVisibleInputs n4;
          n6 = updateRequestJsonWidget pf n5
      in n6\<lparr>wavespeedState := clearParamMapping (wavespeedState n6)\<rparr>)"

text \<open>\<^verbatim>\<open>clearModelAndParameters\<close> (lines 1684--1695) and \<^verbatim>\<open>clearDynamicWidgets\<close> (lines 1849--1862).\<close>

definition clearModelAndParameters :: "(string \<Rightarrow> rat option) \<Rightarrow> node \<Rightarrow> node" where
  "clearModelAndParameters pf n =
     (let n1 = (case modelWidget n of
                  None \<Rightarrow> n
                | Some i \<Rightarrow>
                    update_widget i
                      (\<lambda>w. w\<lparr>w_value := JStr [],
                              w_options := (w_options w)\<lparr>opt_values := Some [JStr []]\<rparr>\<rparr>) n);
          n2 = n1\<lparr>wavespeedState := (wavespeedState n1)\<lparr>modelId := []\<rparr>\<rparr>;
          n3 = updateOriginalModelIdWidget n2 []
      in clearModelParameters pf n3)"








section \<open>Initialization\<close>








section \<open>Execution-time transformation\<close>

text \<open>
  The dynamic state the transformation reads: the model id, the parameter values, the
  parameter mapping and the parameter metadata (\<open>None\<close> where the member is missing;
  \<^verbatim>\<open>category\<close> and \<^verbatim>\<open>parameters\<close> are not read by it). A metadata entry may lack
  its members.
\<close>

record metadata_entry =
  me_isArray :: bool
  me_arrayItemType :: "string option"

record dynamicState =
  ds_modelId :: string
  ds_parameterValues :: "(string \<times> jsval) list option"
  ds_paramMapping :: "(string \<times> placeholderInfo) list option"
  ds_parameterMetadata :: "(string \<times> metadata_entry) list option"

text \<open>
  A node entry of the prompt: \<^verbatim>\<open>inputs\<close>, \<^verbatim>\<open>class_type\<close>, \<^verbatim>\<open>_meta\<close>. An input whose
  value is an array is a wire connection \<^verbatim>\<open>[origin id, origin slot]\<close>.
\<close>

record nodeData =
  nd_inputs :: "(string \<times> jsval) list option"
  nd_class_type :: string
  nd_meta :: jsval

text \<open>
  The values of the transformed inputs: the model id, the two JSON texts (each kept as
  the object it encodes) and the values copied from the node entry.
\<close>

datatype input_value =
    ModelId string
  | RequestJson "(string \<times> jsval) list"
  | ParamMap "(string \<times> placeholderInfo) list"
  | Copied jsval

record transformedNode =
  tn_inputs :: "(string \<times> input_value) list"
  tn_class_type :: string
  tn_meta :: jsval

text \<open>\<^verbatim>\<open>name.startsWith('* ') ? name.substring(2) : name\<close>.\<close>

definition clean_name :: "string \<Rightarrow> string" where
  "clean_name s = (if startsWith s ''* '' then drop 2 s else s)"

text \<open>
  The array branch of the request loop (lines 2018--2033). \<open>String_of\<close> is the built-in
  \<^verbatim>\<open>String\<close> on a value that is not a string.
\<close>

definition js_String :: "(jsval \<Rightarrow> string) \<Rightarrow> jsval \<Rightarrow> string" where
  "js_String String_of v = (case v of JStr s \<Rightarrow> s | _ \<Rightarrow> String_of v)"

definition process_value ::
  "(string \<Rightarrow> rat option) \<Rightarrow> (jsval \<Rightarrow> string) \<Rightarrow> metadata_entry option \<Rightarrow> jsval \<Rightarrow> jsval" where
  "process_value pf String_of md value =
     (case (md, value) of
        (Some m, JArr items) \<Rightarrow>
          (if me_isArray m
           then (if me_arrayItemType m = Some ''number''
                 then JArr (map (\<lambda>item. case item of
                                           JStr s \<Rightarrow> (case pf s of None \<Rightarrow> item | Some num \<Rightarrow> JNum num)
                                         | _ \<Rightarrow> item) items)
                 else JArr (map (\<lambda>item. JStr (js_String String_of item)) items))
           else value)
      | _ \<Rightarrow> value)"

definition build_requestJson ::
  "(string \<Rightarrow> rat option) \<Rightarrow> (jsval \<Rightarrow> string) \<Rightarrow> dynamicState \<Rightarrow> (string \<times> jsval) list" where
  "build_requestJson pf String_of ds =
     (let parameterMetadata = (case ds_parameterMetadata ds of Some m \<Rightarrow> m | None \<Rightarrow> []) in
      foldl (\<lambda>requestJson (paramName, value).
               obj_set requestJson (clean_name paramName)
                 (process_value pf String_of (obj_get parameterMetadata paramName) value))
        [] (case ds_parameterValues ds of Some vs \<Rightarrow> vs | None \<Rightarrow> []))"

text \<open>
  The body of the connection loop (lines 2052--2078) for one input of the node entry.
\<close>

definition map_connection ::
  "(string \<times> placeholderInfo) list \<Rightarrow> (string \<times> input_value) list \<Rightarrow> string \<times> jsval \<Rightarrow>
   (string \<times> input_value) list" where
  "map_connection paramMap transformedInputs kv =
     (case kv of (inputName, inputValue) \<Rightarrow>
      (case inputValue of
         JArr link \<Rightarrow>
           (if is_placeholder_name inputName
            then obj_set transformedInputs inputName (Copied inputValue)
            else (case obj_get paramMap (clean_name inputName) of
                    None \<Rightarrow> transformedInputs
                  | Some placeholderInfo \<Rightarrow>
                      (if placeholder placeholderInfo \<noteq> []
                       then obj_set transformedInputs (placeholder placeholderInfo) (Copied inputValue)
                       else transformedInputs)))
       | _ \<Rightarrow> transformedInputs))"

text \<open>\<^verbatim>\<open>transformDynamicNodeForExecution\<close> (lines 2002--2097).\<close>

definition transformDynamicNodeForExecution ::
  "(string \<Rightarrow> rat option) \<Rightarrow> (jsval \<Rightarrow> string) \<Rightarrow> nodeData \<Rightarrow> dynamicState \<Rightarrow> transformedNode" where
  "transformDynamicNodeForExecution pf String_of nd ds =
     (let requestJson = build_requestJson pf String_of ds;
          paramMap = (case ds_paramMapping ds of Some m \<Rightarrow> m | None \<Rightarrow> []);
          transformedInputs0 =
            [(''model_id'', ModelId (ds_modelId ds)),
             (''request_json'', RequestJson (JSON_stringify_object requestJson)),
             (''param_map'', ParamMap paramMap)];
          transformedInputs =
            (case nd_inputs nd of
               None \<Rightarrow> transformedInputs0
             | Some ins \<Rightarrow> foldl (map_connection paramMap) transformedInputs0 ins)
      in \<lparr>tn_inputs = transformedInputs,
          tn_class_type = ''WaveSpeedAI Task Create'',
          tn_meta = js_or (nd_meta nd) (JObj [(''title'', JStr ''WaveSpeedAI Task Create [WIP]'')])\<rparr>)"

text \<open>
  \<^verbatim>\<open>collectDynamicStateFromGraphNode\<close> (lines 1944--1999), applied to the graph node found
  for the id (\<open>None\<close> when there is none).
\<close>

definition collectDynamicStateFromGraphNode ::
  "(string \<Rightarrow> rat option) \<Rightarrow> node option \<Rightarrow> dynamicState option" where
  "collectDynamicStateFromGraphNode pf graphNode =
     (case graphNode of
        None \<Rightarrow> None
      | Some g \<Rightarrow>
          (if modelId (wavespeedState g) = [] \<or> parameters (wavespeedState g) = [] then None
           else (let (currentParamValues, g1) = collectParameterValues pf g;
                     state = wavespeedState g1;
                     finalParamMapping =
                       (case connectedParams state of
                          None \<Rightarrow> paramMapping state
                        | Some c \<Rightarrow> foldl (\<lambda>m (k, v). obj_set m k v) (paramMapping state) c)
                 in Some \<lparr>ds_modelId = modelId state,
                          ds_parameterValues = Some currentParamValues,
                          ds_paramMapping = Some finalParamMapping,
                          ds_parameterMetadata =
                            Some (map (\<lambda>(k, m). (k, \<lparr>me_isArray = md_isArray m,
                                                        me_arrayItemType = Some (md_arrayItemType m)\<rparr>))
                                      (collectParameterMetadata g1))\<rparr>)))"

section \<open>Schema cache\<close>

text \<open>
  \<^verbatim>\<open>GLOBAL_CACHE\<close> (lines 15--22). Times are the milliseconds of \<^verbatim>\<open>Date.now()\<close>. A
  model detail is kept as its \<^verbatim>\<open>input_schema\<close> member.
\<close>

record global_cache =
  gc_categories :: "category_entry list option"
  gc_modelsByCategory :: "(string \<times> category_entry list) list"
  gc_modelDetails :: "(string \<times> inputSchema option) list"
  gc_lastCategoryUpdate :: int
  gc_lastModelUpdate :: "(string \<times> int) list"
  gc_cacheExpiry :: int

definition GLOBAL_CACHE :: global_cache where
  "GLOBAL_CACHE =
     \<lparr>gc_categories = None, gc_modelsByCategory = [], gc_modelDetails = [],
      gc_lastCategoryUpdate = 0, gc_lastModelUpdate = [], gc_cacheExpiry = 5 * 60 * 1000\<rparr>"

text \<open>
  The answer of the remote service to one request, as \<^verbatim>\<open>fetchWaveSpeedAPI\<close> returns it:
  \<^verbatim>\<open>success\<close> and \<^verbatim>\<open>data\<close> (a failed fetch gives \<^verbatim>\<open>success: false\<close>).
\<close>

record 'a api_result =
  success :: bool
  data :: 'a

definition getModelCategories :: "category_entry list api_result \<Rightarrow> category_entry list" where
  "getModelCategories result = (if success result then data result else [])"

definition getModelsByCategory :: "category_entry list api_result \<Rightarrow> category_entry list" where
  "getModelsByCategory result = (if success result then data result else [])"

definition getModelDetail :: "inputSchema option option api_result \<Rightarrow> inputSchema option option" where
  "getModelDetail result = (if success result then data result else None)"

definition isCacheExpired :: "global_cache \<Rightarrow> int \<Rightarrow> int \<Rightarrow> bool" where
  "isCacheExpired cache now timestamp = (now - timestamp > gc_cacheExpiry cache)"

text \<open>
  The three cached reads (lines 58--88). \<open>now\<close> is the clock when the entry is tested,
  \<open>remote\<close> gives the answer the service would send (with the clock when it arrives);
  the result is the value returned, the cache afterwards, and whether the service was
  asked.
\<close>

definition getCachedCategories ::
  "global_cache \<Rightarrow> int \<Rightarrow> (category_entry list api_result \<times> int) \<Rightarrow>
   category_entry list \<times> global_cache \<times> bool" where
  "getCachedCategories cache now remote =
     (let fetched =
            (let cats = getModelCategories (fst remote)
             in (cats, cache\<lparr>gc_categories := Some cats, gc_lastCategoryUpdate := snd remote\<rparr>, True))
      in case gc_categories cache of
           None \<Rightarrow> fetched
         | Some cached \<Rightarrow>
             (if isCacheExpired cache now (gc_lastCategoryUpdate cache) then fetched
              else (cached, cache, False)))"

definition getCachedModelsByCategory ::
  "global_cache \<Rightarrow> int \<Rightarrow> string \<Rightarrow> (category_entry list api_result \<times> int) \<Rightarrow>
   category_entry list \<times> global_cache \<times> bool" where
  "getCachedModelsByCategory cache now cat remote =
     (let fetched =
            (let models = getModelsByCategory (fst remote)
             in (models,
                 cache\<lparr>gc_modelsByCategory := obj_set (gc_modelsByCategory cache) cat models,
                       gc_lastModelUpdate := obj_set (gc_lastModelUpdate cache) cat (snd remote)\<rparr>,
                 True))
      in case obj_get (gc_modelsByCategory cache) cat of
           None \<Rightarrow> fetched
         | Some cached \<Rightarrow>
             (if isCacheExpired cache now
                   (case obj_get (gc_lastModelUpdate cache) cat of Some t \<Rightarrow> t | None \<Rightarrow> 0)
              then fetched
              else (cached, cache, False)))"

definition getCachedModelDetail ::
  "global_cache \<Rightarrow> string \<Rightarrow> inputSchema option option api_result \<Rightarrow>
   inputSchema option option \<times> global_cache \<times> bool" where
  "getCachedModelDetail cache mid remote =
     (case obj_get (gc_modelDetails cache) mid of
        Some cached \<Rightarrow> (Some cached, cache, False)
      | None \<Rightarrow>
          (case getModelDetail remote of
             None \<Rightarrow> (None, cache, True)
           | Some detail \<Rightarrow>
               (Some detail,
                cache\<lparr>gc_modelDetails := obj_set (gc_modelDetails cache) mid detail\<rparr>, True)))"

section \<open>Auxiliary notions for the proofs\<close>


text \<open>
  The pool as a release followed by allocations leaves it: the bound slots are exactly
  those below the hint, and the bindings of the mapping hold the slots 1, 2, ... in the
  order in which they were made.
\<close>

definition pool_inv :: "wavespeedState \<Rightarrow> bool" where
  "pool_inv st \<longleftrightarrow>
     1 \<le> nextPlaceholderIndex st \<and>
     usedPlaceholders st = placeholder_name ` {1..<nextPlaceholderIndex st} \<and>
     map (\<lambda>kv. placeholder (snd kv)) (paramMapping st) =
       map placeholder_name [1..<nextPlaceholderIndex st]"

text \<open>The binding object a successful scan at index \<open>i\<close> creates.\<close>

definition new_binding :: "param \<Rightarrow> nat \<Rightarrow> placeholderInfo" where
  "new_binding p i =
     \<lparr>placeholder = placeholder_name i, info_type = resolve_paramType p,
      originalType = param_type p, info_isArray = param_isArray p,
      arrayItemType = (case param_arrayItems p of Some t \<Rightarrow> t | None \<Rightarrow> None)\<rparr>"

text \<open>The state literal of \<^verbatim>\<open>nodeCreated\<close> (lines 230--241).\<close>

definition initial_wavespeedState :: wavespeedState where
  "initial_wavespeedState =
     \<lparr>modelId = [], category = [], parameters = [], parameterValues = [],
      categoryList = None, isInitialized = False, paramMapping = [],
      usedPlaceholders = {}, nextPlaceholderIndex = 1,
      hiddenWidgets = \<lparr>hw_model_id = None, hw_request_json = None, hw_param_map = None\<rparr>,
      connectedParams = None\<rparr>"

definition example_param :: "string \<Rightarrow> string \<Rightarrow> param" where
  "example_param n t =
     \<lparr>param_name = n, param_displayName = n, param_type = t, param_required = False,
      param_default = JUndefined, param_description = [], param_isArray = False,
      param_arrayItems = None, param_options = None, param_min = JUndefined,
      param_max = JUndefined, param_step = None\<rparr>"








text \<open>A newly created control with the given identity, as \<open>addWidget\<close> builds it.\<close>

definition new_control :: "nat \<Rightarrow> string \<Rightarrow> string \<Rightarrow> jsval \<Rightarrow> widget_options \<Rightarrow> widget" where
  "new_control i t nm v opts =
     \<lparr>w_id = i, w_type = t, w_name = nm, w_value = v, w_options = opts, w_hidden = False,
      wavespeed_dynamic = False, wavespeed_base = False, wavespeed_param_name = None,
      wavespeed_param_index = None, wavespeed_required = None, wavespeed_is_array = False,
      wavespeed_array_item_type = None, wavespeed_seed_button = False,
      wavespeed_input_pair = None\<rparr>"

text \<open>A node as \<^verbatim>\<open>nodeCreated\<close> sets it up: no controls yet, the twenty static placeholder
  ports recorded as original inputs, the initial dynamic state.\<close>

definition placeholder_port :: "nat \<Rightarrow> port" where
  "placeholder_port i =
     \<lparr>port_name = placeholder_name i, port_type = ''*'', port_link = None, port_hidden = False,
      port_dynamic = False, port_param_name = None, port_placeholder = JUndefined\<rparr>"

definition example_node :: node where
  "example_node =
     \<lparr>widgets = [], inputs = [], wavespeed_hiddenInputs = [], wavespeed_allInputs = [],
      wavespeed_originalInputs = map placeholder_port [1..<21],
      wavespeedState = initial_wavespeedState, categoryWidget = None, modelWidget = None\<rparr>"

definition seed_example :: param where
  "seed_example =
     (example_param ''Random_SEED'' ''INT'')\<lparr>param_min := JNum 0, param_max := JNum 100\<rparr>"

text \<open>A required single-line string parameter the schema gives no default.\<close>

definition style_param :: param where
  "style_param = (example_param ''style'' ''STRING'')\<lparr>param_required := True\<rparr>"

text \<open>An array parameter whose items are declared as integers, and a node with a model
  selected that shows it.\<close>

definition sizes_param :: param where
  "sizes_param =
     (example_param ''sizes'' ''STRING'')\<lparr>param_isArray := True, param_arrayItems := Some (Some ''integer'')\<rparr>"

definition sizes_node :: node where
  "sizes_node =
     (let n0 = example_node\<lparr>wavespeedState :=
                 initial_wavespeedState\<lparr>modelId := ''m'', parameters := [sizes_param]\<rparr>\<rparr>;
          (w, n1) = createParameterWidget n0 sizes_param 0
      in (case w of
            None \<Rightarrow> n1
          | Some c \<Rightarrow> update_widget (w_id c) (\<lambda>x. x\<lparr>w_value := JStr ''1, 2, 3''\<rparr>) n1))"

text \<open>The key of the transformed inputs on which a node input lands: its own name for a
  connection on a placeholder key, the mapped slot for a connection on a mapped name, and
  none for anything else.\<close>

definition connection_target :: "(string \<times> placeholderInfo) list \<Rightarrow> string \<times> jsval \<Rightarrow> string option" where
  "connection_target paramMap kv =
     (case snd kv of
        JArr link \<Rightarrow>
          (if is_placeholder_name (fst kv) then Some (fst kv)
           else (case obj_get paramMap (clean_name (fst kv)) of
                   None \<Rightarrow> None
                 | Some info \<Rightarrow> (if placeholder info \<noteq> [] then Some (placeholder info) else None)))
      | _ \<Rightarrow> None)"

definition mapping_of :: "dynamicState \<Rightarrow> (string \<times> placeholderInfo) list" where
  "mapping_of ds = (case ds_paramMapping ds of Some m \<Rightarrow> m | None \<Rightarrow> [])"

definition example_binding :: "string \<Rightarrow> placeholderInfo" where
  "example_binding slot =
     \<lparr>placeholder = slot, info_type = ''string'', originalType = ''STRING'',
      info_isArray = False, arrayItemType = None\<rparr>"

definition example_nodeData :: "(string \<times> jsval) list \<Rightarrow> nodeData" where
  "example_nodeData ins =
     \<lparr>nd_inputs = Some ins, nd_class_type = ''WaveSpeedAI Task Create'', nd_meta = JUndefined\<rparr>"

definition example_dynamicState :: "(string \<times> placeholderInfo) list option \<Rightarrow> dynamicState" where
  "example_dynamicState m =
     \<lparr>ds_modelId = ''m'', ds_parameterValues = None, ds_paramMapping = m,
      ds_parameterMetadata = None\<rparr>"











section \<open>Properties of the placeholder pool\<close>

declare string_of_nat.simps [simp del]
declare allocatePlaceholder_scan.simps [simp del]

lemma obj_get_obj_set: "obj_get (obj_set obj k v) k' = (if k' = k then Some v else obj_get obj k')"
  by (induction obj) (auto simp: obj_get_def)




text \<open>What the scan returns, whatever the pool holds.\<close>

lemma allocatePlaceholder_scan_Some:
  "allocatePlaceholder_scan used i = Some k \<Longrightarrow>
   i \<le> k \<and> k \<le> 20 \<and> placeholder_name k \<notin> used \<and>
   (\<forall>j. i \<le> j \<and> j < k \<longrightarrow> placeholder_name j \<in> used)"
proof (induction used i rule: allocatePlaceholder_scan.induct)
  case (1 used i)
  show ?case
  proof (cases "i \<le> 20 \<and> placeholder_name i \<in> used")
    case True
    then have "allocatePlaceholder_scan used (i + 1) = Some k"
      using "1.prems" by (subst (asm) allocatePlaceholder_scan.simps) simp
    then have IH: "i + 1 \<le> k \<and> k \<le> 20 \<and> placeholder_name k \<notin> used \<and>
        (\<forall>j. i + 1 \<le> j \<and> j < k \<longrightarrow> placeholder_name j \<in> used)"
      using "1.IH" True by simp
    have "placeholder_name j \<in> used" if "i \<le> j" "j < k" for j
    proof (cases "j = i")
      case True
      then show ?thesis using \<open>i \<le> 20 \<and> placeholder_name i \<in> used\<close> by simp
    next
      case False
      then show ?thesis using IH that by simp
    qed
    then show ?thesis using IH by simp
  next
    case False
    then show ?thesis using "1.prems"
      by (subst (asm) allocatePlaceholder_scan.simps) (auto split: if_splits)
  qed
qed


lemma set_obj_set: "set (obj_set obj k v) \<subseteq> insert (k, v) (set obj)"
proof (induction obj)
  case Nil
  show ?case by simp
next
  case (Cons a obj)
  obtain k' v' where a: "a = (k', v')" by (cases a)
  show ?case using Cons unfolding a by (cases "k' = k") auto
qed


lemma allocatePlaceholder_mapped:
  "obj_get (paramMapping st) (param_name p) = Some b \<Longrightarrow> allocatePlaceholder st p = (Some b, st)"
  by (simp add: allocatePlaceholder_def)

lemma allocatePlaceholder_None:
  "fst (allocatePlaceholder st p) = None \<Longrightarrow> snd (allocatePlaceholder st p) = st"
  by (auto simp: allocatePlaceholder_def Let_def split: option.splits)

lemma pool_inv_clearParamMapping: "pool_inv (clearParamMapping st)"
  by (simp add: pool_inv_def clearParamMapping_def updateParamMapWidget_def)

lemma allocatePlaceholder_fresh:
  assumes "obj_get (paramMapping st) (param_name p) = None"
      and "allocatePlaceholder_scan (usedPlaceholders st) (nextPlaceholderIndex st) = Some i"
  shows "allocatePlaceholder st p =
     (Some (new_binding p i),
      updateParamMapWidget
        (st\<lparr>nextPlaceholderIndex := i + 1,
            paramMapping := obj_set (paramMapping st) (param_name p) (new_binding p i),
            usedPlaceholders := insert (placeholder_name i) (usedPlaceholders st)\<rparr>))"
  unfolding allocatePlaceholder_def Let_def new_binding_def using assms by simp















text \<open>
  C3. \<^verbatim>\<open>allocatePlaceholder\<close> is idempotent: for a name that holds a binding the call
  returns that binding and the state is unchanged; hence a second call after a
  successful one returns the same binding and changes nothing.
\<close>

theorem allocatePlaceholder_idempotent:
  "(obj_get (paramMapping st) (param_name p) = Some b \<longrightarrow> allocatePlaceholder st p = (Some b, st)) \<and>
   (allocatePlaceholder st p = (Some b, st') \<longrightarrow> allocatePlaceholder st' p = (Some b, st'))"
proof (intro conjI impI)
  assume "obj_get (paramMapping st) (param_name p) = Some b"
  then show "allocatePlaceholder st p = (Some b, st)" by (rule allocatePlaceholder_mapped)
next
  assume a: "allocatePlaceholder st p = (Some b, st')"
  have "obj_get (paramMapping st') (param_name p) = Some b"
  proof (cases "obj_get (paramMapping st) (param_name p)")
    case (Some b0)
    then show ?thesis using a by (simp add: allocatePlaceholder_mapped)
  next
    case None
    show ?thesis
    proof (cases "allocatePlaceholder_scan (usedPlaceholders st) (nextPlaceholderIndex st)")
      case None2: None
      then show ?thesis using a None by (simp add: allocatePlaceholder_def)
    next
      case (Some i)
      show ?thesis using a unfolding allocatePlaceholder_fresh[OF None Some]
        by (auto simp: updateParamMapWidget_def obj_get_obj_set)
    qed
  qed
  then show "allocatePlaceholder st' p = (Some b, st')" by (rule allocatePlaceholder_mapped)
qed

theorem allocatePlaceholder_idempotent_witness:
  "fst (allocatePlaceholder initial_wavespeedState (example_param ''prompt'' ''STRING''))
     = Some (new_binding (example_param ''prompt'' ''STRING'') 1) \<and>
   allocatePlaceholder
     (snd (allocatePlaceholder initial_wavespeedState (example_param ''prompt'' ''STRING'')))
     (example_param ''prompt'' ''STRING'')
   = (Some (new_binding (example_param ''prompt'' ''STRING'') 1),
      snd (allocatePlaceholder initial_wavespeedState (example_param ''prompt'' ''STRING'')))"
proof -
  let ?p = "example_param ''prompt'' ''STRING''"
  have s: "allocatePlaceholder_scan (usedPlaceholders initial_wavespeedState)
             (nextPlaceholderIndex initial_wavespeedState) = Some 1"
    by (subst allocatePlaceholder_scan.simps) (simp add: initial_wavespeedState_def)
  have u: "obj_get (paramMapping initial_wavespeedState) (param_name ?p) = None"
    by (simp add: initial_wavespeedState_def obj_get_def)
  let ?st1 = "snd (allocatePlaceholder initial_wavespeedState ?p)"
  have f: "fst (allocatePlaceholder initial_wavespeedState ?p) = Some (new_binding ?p 1)"
    by (simp add: allocatePlaceholder_fresh[OF u s])
  then have first: "allocatePlaceholder initial_wavespeedState ?p = (Some (new_binding ?p 1), ?st1)"
    by (simp add: prod_eq_iff)
  from allocatePlaceholder_idempotent[where st = initial_wavespeedState and p = ?p
      and b = "new_binding ?p 1" and st' = ?st1]
  have "allocatePlaceholder ?st1 ?p = (Some (new_binding ?p 1), ?st1)"
    using first by blast
  then show ?thesis using f by (intro conjI)
qed

section \<open>Properties of the schema parser\<close>








section \<open>Properties of control creation\<close>

lemma find_append_list:
  "find P (xs @ ys) = (case find P xs of None \<Rightarrow> find P ys | Some x \<Rightarrow> Some x)"
  by (induction xs) auto

lemma w_id_le_foldr_max: "w \<in> set ws \<Longrightarrow> w_id w \<le> foldr max (map w_id ws) 0"
  by (induction ws) auto

lemma fresh_widget_id_new: "w \<in> set (widgets n) \<Longrightarrow> w_id w \<noteq> fresh_widget_id n"
  using w_id_le_foldr_max[of w "widgets n"] by (simp add: fresh_widget_id_def)

lemma find_fresh_None: "find (\<lambda>w. w_id w = fresh_widget_id n) (widgets n) = None"
  by (auto simp: find_None_iff fresh_widget_id_new)

lemma find_map_update:
  assumes "\<And>w. w_id (f w) = w_id w"
  shows "find (\<lambda>w. w_id w = i) (map (\<lambda>w. if w_id w = j then f w else w) ws) =
         (if i = j then map_option f (find (\<lambda>w. w_id w = i) ws) else find (\<lambda>w. w_id w = i) ws)"
  by (induction ws) (auto simp: assms)

lemma get_widget_update_widget:
  assumes "\<And>w. w_id (f w) = w_id w"
  shows "get_widget i (update_widget j f n) =
         (if i = j then map_option f (get_widget i n) else get_widget i n)"
  unfolding get_widget_def update_widget_def using find_map_update[of f i j "widgets n", OF assms]
  by simp

lemma addWidget_eq:
  "addWidget n t nm v opts =
     (new_control (fresh_widget_id n) t nm v opts,
      n\<lparr>widgets := widgets n @ [new_control (fresh_widget_id n) t nm v opts]\<rparr>)"
  by (simp add: addWidget_def new_control_def Let_def)

lemma fresh_widget_id_append:
  "fresh_widget_id (n\<lparr>widgets := widgets n @ [w]\<rparr>) = Suc (max (w_id w) (fresh_widget_id n - 1))"
proof -
  have "foldr max (map w_id (ws @ [w])) 0 = max (w_id w) (foldr max (map w_id ws) 0)" for ws
    by (induction ws) (auto simp: max.assoc max.left_commute)
  then show ?thesis by (simp add: fresh_widget_id_def)
qed



lemma fresh_after_add:
  "w_id w = fresh_widget_id n \<Longrightarrow> fresh_widget_id (n\<lparr>widgets := widgets n @ [w]\<rparr>) = Suc (fresh_widget_id n)"
  unfolding fresh_widget_id_append by (simp add: fresh_widget_id_def)

lemma new_control_simps [simp]:
  "w_id (new_control i t nm v opts) = i"
  "w_type (new_control i t nm v opts) = t"
  "w_name (new_control i t nm v opts) = nm"
  "w_value (new_control i t nm v opts) = v"
  "w_options (new_control i t nm v opts) = opts"
  "wavespeed_dynamic (new_control i t nm v opts) = False"
  by (simp_all add: new_control_def)

lemma createSeedWidget_eq:
  "createSeedWidget n p d =
     (fresh_widget_id n,
      n\<lparr>widgets := widgets n @
         [new_control (fresh_widget_id n) ''number'' d (nullish (param_default p) (JNum (- 1)))
            (no_options\<lparr>opt_precision := JNum 0, opt_step := JNum 1, opt_min := JNum (- 3),
                        opt_max := JNum 1125899906842624\<rparr>),
          (new_control (Suc (fresh_widget_id n)) ''button'' '' Random Seed'' (JStr [])
             (no_options\<lparr>opt_serialize := Some False\<rparr>))
            \<lparr>wavespeed_dynamic := True, wavespeed_seed_button := True,
             wavespeed_param_name := Some (param_name p)\<rparr>,
          (new_control (Suc (Suc (fresh_widget_id n))) ''button'' '' Auto Random'' (JStr [])
             (no_options\<lparr>opt_serialize := Some False\<rparr>))
            \<lparr>wavespeed_dynamic := True, wavespeed_seed_button := True,
             wavespeed_param_name := Some (param_name p)\<rparr>]\<rparr>)"
proof -
  let ?f = "fresh_widget_id n"
  have old: "\<And>w. w \<in> set (widgets n) \<Longrightarrow> w_id w < ?f"
    using w_id_le_foldr_max by (fastforce simp: fresh_widget_id_def)
  have m: "map h (widgets n) = widgets n"
    if "\<And>w. w_id w < ?f \<Longrightarrow> h w = w" for h :: "widget \<Rightarrow> widget"
  proof (rule map_idI)
    fix w assume "w \<in> set (widgets n)"
    then have "w_id w < ?f" by (rule old)
    then show "h w = w" by (rule that)
  qed
  show ?thesis
    unfolding createSeedWidget_def addWidget_eq Let_def
    by (simp add: fresh_after_add update_widget_def m)
qed

lemma get_widget_appended:
  assumes "widgets n = ws @ w # rest" and "\<And>x. x \<in> set ws \<Longrightarrow> w_id x \<noteq> w_id w"
  shows "get_widget (w_id w) n = Some w"
  unfolding get_widget_def assms(1) using assms(2)
  by (simp add: find_append_list find_None_iff[THEN iffD2] split: option.splits)

lemma createWidgetInputPort_get_widget:
  assumes "get_widget wid n = Some w"
  shows "\<exists>x. get_widget wid (snd (createWidgetInputPort n wid p)) = Some (w\<lparr>wavespeed_input_pair := x\<rparr>)"
proof -
  obtain r st' where al: "allocatePlaceholder (wavespeedState n) p = (r, st')"
    by (cases "allocatePlaceholder (wavespeedState n) p")
  have same: "get_widget wid (n\<lparr>wavespeedState := st'\<rparr>) = Some w"
    using assms by (simp add: get_widget_def)
  have ex: "\<exists>x. Some w = Some (w\<lparr>wavespeed_input_pair := x\<rparr>)"
    by (rule exI[of _ "wavespeed_input_pair w"]) simp
  show ?thesis
  proof (cases r)
    case None
    then have "snd (createWidgetInputPort n wid p) = n\<lparr>wavespeedState := st'\<rparr>"
      using al unfolding createWidgetInputPort_def by simp
    then show ?thesis using same ex by (simp only:)
  next
    case (Some info)
    show ?thesis
    proof (cases "find_placeholder_input (n\<lparr>wavespeedState := st'\<rparr>) (placeholder info)")
      case None
      then have "snd (createWidgetInputPort n wid p) = n\<lparr>wavespeedState := st'\<rparr>"
        using al Some unfolding createWidgetInputPort_def Let_def by simp
      then show ?thesis using same ex by (simp only:)
    next
      case found: (Some q0)
      define q where "q = \<lparr>port_name = param_name p,
                          port_type = (if param_type p = ''INT'' \<or> param_type p = ''FLOAT''
                                       then ''NUMBER'' else param_type p),
                          port_link = None, port_hidden = False, port_dynamic = True,
                          port_param_name = Some (param_name p),
                          port_placeholder = JStr (placeholder info)\<rparr>"
      define n2 where "n2 = (n\<lparr>wavespeedState := st'\<rparr>)\<lparr>inputs := inputs (n\<lparr>wavespeedState := st'\<rparr>) @ [q]\<rparr>"
      have "get_widget wid n2 = Some w" using assms by (simp add: get_widget_def n2_def)
      then have "get_widget wid (update_widget wid (\<lambda>w. w\<lparr>wavespeed_input_pair := Some q\<rparr>) n2)
                   = Some (w\<lparr>wavespeed_input_pair := Some q\<rparr>)"
        by (subst get_widget_update_widget) simp_all
      moreover have "snd (createWidgetInputPort n wid p) =
                     update_widget wid (\<lambda>w. w\<lparr>wavespeed_input_pair := Some q\<rparr>) n2"
        using al Some found unfolding createWidgetInputPort_def Let_def q_def n2_def by simp
      ultimately show ?thesis by auto
    qed
  qed
qed

lemma createParameterWidget_seed:
  assumes "str_includes (toLowerCase (param_name p)) ''seed''"
  shows "\<exists>x. fst (createParameterWidget n p i) =
      Some ((new_control (fresh_widget_id n) ''number''
               ((if param_required p then ''* '' else []) @ param_displayName p)
               (nullish (param_default p) (JNum (- 1)))
               (no_options\<lparr>opt_precision := JNum 0, opt_step := JNum 1, opt_min := JNum (- 3),
                           opt_max := JNum 1125899906842624\<rparr>))
            \<lparr>wavespeed_dynamic := True, wavespeed_param_name := Some (param_name p),
             wavespeed_param_index := Some i, wavespeed_required := Some (param_required p),
             wavespeed_input_pair := x\<rparr>)"
proof -
  let ?d = "(if param_required p then ''* '' else []) @ param_displayName p"
  let ?f = "fresh_widget_id n"
  let ?W = "new_control ?f ''number'' ?d (nullish (param_default p) (JNum (- 1)))
               (no_options\<lparr>opt_precision := JNum 0, opt_step := JNum 1, opt_min := JNum (- 3),
                           opt_max := JNum 1125899906842624\<rparr>)"
  let ?mark = "\<lambda>w. w\<lparr>wavespeed_dynamic := True, wavespeed_param_name := Some (param_name p),
                         wavespeed_param_index := Some i, wavespeed_required := Some (param_required p)\<rparr>"
  obtain n1 where cc: "create_control n p ?d = (?f, n1)"
    and ws: "\<exists>rest. widgets n1 = widgets n @ ?W # rest"
    using assms by (simp add: create_control_def createSeedWidget_eq)
  from ws obtain rest where ws': "widgets n1 = widgets n @ ?W # rest" by blast
  have "get_widget (w_id ?W) n1 = Some ?W"
    using ws' by (rule get_widget_appended) (simp add: fresh_widget_id_new)
  then have g1: "get_widget ?f n1 = Some ?W" by simp
  have g2: "get_widget ?f (update_widget ?f ?mark n1) = Some (?mark ?W)"
    by (subst get_widget_update_widget) (simp_all add: g1)
  show ?thesis
  proof (cases "shouldCreateInputPort p")
    case False
    have "fst (createParameterWidget n p i) = Some ((?mark ?W)\<lparr>wavespeed_input_pair := wavespeed_input_pair (?mark ?W)\<rparr>)"
      using False cc g2 by (simp add: createParameterWidget_def Let_def)
    then show ?thesis by (simp add: new_control_def)
  next
    case True
    from createWidgetInputPort_get_widget[OF g2, of p] obtain x where
      "get_widget ?f (snd (createWidgetInputPort (update_widget ?f ?mark n1) ?f p)) =
         Some ((?mark ?W)\<lparr>wavespeed_input_pair := x\<rparr>)" by blast
    then have "fst (createParameterWidget n p i) = Some ((?mark ?W)\<lparr>wavespeed_input_pair := x\<rparr>)"
      using True cc by (simp add: createParameterWidget_def Let_def)
    then show ?thesis by auto
  qed
qed

text \<open>
  C10. For a parameter whose name contains \<^verbatim>\<open>seed\<close> in any letter case, the control
  that \<^verbatim>\<open>createParameterWidget\<close> returns is a number control with minimum -3, maximum
  1125899906842624, step 1 and precision 0, whatever \<^verbatim>\<open>min\<close> and \<^verbatim>\<open>max\<close> the parameter
  carries; its value is the parameter's default, and -1 when the default is
  \<^verbatim>\<open>undefined\<close> or \<^verbatim>\<open>null\<close>.
\<close>

theorem seed_control_fixed_range:
  assumes "str_includes (toLowerCase (param_name p)) ''seed''"
  shows "\<exists>w. fst (createParameterWidget n p i) = Some w \<and>
           w_type w = ''number'' \<and>
           opt_min (w_options w) = JNum (- 3) \<and>
           opt_max (w_options w) = JNum 1125899906842624 \<and>
           opt_step (w_options w) = JNum 1 \<and>
           opt_precision (w_options w) = JNum 0 \<and>
           w_value w = (if param_default p = JUndefined \<or> param_default p = JNull
                        then JNum (- 1) else param_default p)"
proof -
  from createParameterWidget_seed[OF assms, of n i] obtain x where
    "fst (createParameterWidget n p i) =
      Some ((new_control (fresh_widget_id n) ''number''
               ((if param_required p then ''* '' else []) @ param_displayName p)
               (nullish (param_default p) (JNum (- 1)))
               (no_options\<lparr>opt_precision := JNum 0, opt_step := JNum 1, opt_min := JNum (- 3),
                           opt_max := JNum 1125899906842624\<rparr>))
            \<lparr>wavespeed_dynamic := True, wavespeed_param_name := Some (param_name p),
             wavespeed_param_index := Some i, wavespeed_required := Some (param_required p),
             wavespeed_input_pair := x\<rparr>)" by blast
  then show ?thesis by (simp add: nullish_def no_options_def)
qed

theorem seed_control_fixed_range_witness:
  "map_option w_type (fst (createParameterWidget example_node seed_example 0)) = Some ''number'' \<and>
   map_option (\<lambda>w. opt_min (w_options w)) (fst (createParameterWidget example_node seed_example 0))
     = Some (JNum (- 3)) \<and>
   map_option (\<lambda>w. opt_max (w_options w)) (fst (createParameterWidget example_node seed_example 0))
     = Some (JNum 1125899906842624) \<and>
   map_option w_value (fst (createParameterWidget example_node seed_example 0)) = Some (JNum (- 1))"
proof -
  have h: "str_includes (toLowerCase (param_name seed_example)) ''seed''"
    by code_simp
  from seed_control_fixed_range[OF h, of example_node 0]
  show ?thesis by (auto simp: seed_example_def example_param_def)
qed

section \<open>Collected values at two concrete nodes\<close>

text \<open>
  C6 at a failing input. A required string parameter without a default gets a
  single-line control of type \<^verbatim>\<open>text\<close> holding the empty string. The test
  \<^verbatim>\<open>widget.type === "string"\<close> of \<^verbatim>\<open>collectParameterValues\<close> (line 1646) never holds
  for a control this code creates, so the branch that keeps a required empty value is
  skipped and \<^verbatim>\<open>value !== ''\<close> fails: the collected object, and the object the
  \<^verbatim>\<open>request_json\<close> text encodes, have no entry for the parameter.
\<close>

theorem required_empty_string_dropped:
  "map (\<lambda>w. (w_type w, w_value w, wavespeed_required w))
        (widgets (snd (createParameterWidget example_node style_param 0))) =
      [(''text'', JStr [], Some True)] \<and>
   fst (collectParameterValues pf (snd (createParameterWidget example_node style_param 0))) = [] \<and>
   hw_request_json (hiddenWidgets (wavespeedState
        (updateRequestJsonWidget pf (snd (createParameterWidget example_node style_param 0))))) = Some []"
  by code_simp

text \<open>
  C5 at a failing input. The control of an array parameter with integer items holds the
  text \<^verbatim>\<open>1, 2, 3\<close>. \<^verbatim>\<open>collectParameterValues\<close> and \<^verbatim>\<open>transformDynamicNodeForExecution\<close>
  parse items only when the item type is \<^verbatim>\<open>number\<close>, so the request carries the three
  items as strings, whatever \<^verbatim>\<open>parseFloat\<close> is, while \<^verbatim>\<open>allocatePlaceholder\<close> has bound
  the same parameter with the type \<^verbatim>\<open>array-int\<close>.
\<close>

theorem integer_array_items_stay_strings:
  "map (\<lambda>w. (w_type w, w_value w, wavespeed_is_array w, wavespeed_array_item_type w)) (widgets sizes_node) =
      [(''customtext'', JStr ''1, 2, 3'', True, Some ''integer'')] \<and>
   fst (collectParameterValues pf sizes_node) = [(''sizes'', JArr [JStr ''1'', JStr ''2'', JStr ''3''])] \<and>
   map (\<lambda>(k, b). (k, info_type b)) (paramMapping (wavespeedState sizes_node)) = [(''sizes'', ''array-int'')] \<and>
   map_option (\<lambda>ds. obj_get (tn_inputs (transformDynamicNodeForExecution pf String_of
            \<lparr>nd_inputs = Some [], nd_class_type = ''WaveSpeedAI Task Create'', nd_meta = JUndefined\<rparr> ds))
            ''request_json'')
        (collectDynamicStateFromGraphNode pf (Some sizes_node)) =
      Some (Some (RequestJson [(''sizes'', JArr [JStr ''1'', JStr ''2'', JStr ''3''])]))"
  by code_simp

section \<open>Properties of the execution-time transformation\<close>

lemma map_connection_target:
  "map_connection pm acc kv =
     (case connection_target pm kv of None \<Rightarrow> acc | Some t \<Rightarrow> obj_set acc t (Copied (snd kv)))"
  by (cases kv) (auto simp: map_connection_def connection_target_def split: jsval.splits option.splits)

lemma foldl_map_connection_skip:
  assumes "\<And>kv. kv \<in> set ins \<Longrightarrow> connection_target pm kv \<noteq> Some t"
  shows "obj_get (foldl (map_connection pm) acc ins) t = obj_get acc t"
  using assms
proof (induction ins arbitrary: acc)
  case Nil
  show ?case by simp
next
  case (Cons kv ins)
  have "obj_get (map_connection pm acc kv) t = obj_get acc t"
    using Cons.prems[of kv] by (auto simp: map_connection_target obj_get_obj_set split: option.splits)
  then show ?case using Cons by simp
qed

lemma foldl_map_connection_last:
  assumes "connection_target pm kv = Some t"
      and "\<And>x. x \<in> set post \<Longrightarrow> connection_target pm x \<noteq> Some t"
  shows "obj_get (foldl (map_connection pm) acc (pre @ kv # post)) t = Some (Copied (snd kv))"
proof -
  have "obj_get (foldl (map_connection pm) acc (pre @ kv # post)) t =
        obj_get (map_connection pm (foldl (map_connection pm) acc pre) kv) t"
    by (simp add: foldl_map_connection_skip[OF assms(2)])
  also have "\<dots> = Some (Copied (snd kv))"
    using assms(1) by (simp add: map_connection_target obj_get_obj_set)
  finally show ?thesis .
qed

lemma foldl_map_connection_dropped:
  assumes "connection_target pm kv = None"
  shows "foldl (map_connection pm) acc (pre @ kv # post) = foldl (map_connection pm) acc (pre @ post)"
  using assms by (simp add: map_connection_target)

lemma tn_inputs_transform:
  "tn_inputs (transformDynamicNodeForExecution pf S nd ds) =
     (case nd_inputs nd of
        None \<Rightarrow> [(''model_id'', ModelId (ds_modelId ds)),
                 (''request_json'', RequestJson (JSON_stringify_object (build_requestJson pf S ds))),
                 (''param_map'', ParamMap (mapping_of ds))]
      | Some ins \<Rightarrow>
          foldl (map_connection (mapping_of ds))
            [(''model_id'', ModelId (ds_modelId ds)),
             (''request_json'', RequestJson (JSON_stringify_object (build_requestJson pf S ds))),
             (''param_map'', ParamMap (mapping_of ds))] ins)"
  unfolding transformDynamicNodeForExecution_def Let_def mapping_of_def by simp

text \<open>
  C4, as stated, fails in two ways. A wire on a pseudo-port whose name has no entry in
  the parameter mapping is not rewritten: the transformed inputs hold the three static
  fields only. And when two wires resolve to the same slot key, only the later one is
  kept: here the wire from node 5 on \<^verbatim>\<open>prompt\<close> is lost.
\<close>

theorem connection_rewrite_counterexample:
  "tn_inputs (transformDynamicNodeForExecution (\<lambda>s. None) (\<lambda>v. [])
      (example_nodeData [(''prompt'', JArr [JStr ''5'', JNum 0])])
      (example_dynamicState None)) =
     [(''model_id'', ModelId ''m''), (''request_json'', RequestJson []), (''param_map'', ParamMap [])] \<and>
   obj_get (tn_inputs (transformDynamicNodeForExecution (\<lambda>s. None) (\<lambda>v. [])
      (example_nodeData [(''prompt'', JArr [JStr ''5'', JNum 0]), (''style'', JArr [JStr ''7'', JNum 0])])
      (example_dynamicState (Some [(''prompt'', example_binding ''param_1''),
                                   (''style'', example_binding ''param_1'')])))) ''param_1'' =
     Some (Copied (JArr [JStr ''7'', JNum 0]))"
  by code_simp

text \<open>
  C4, amended. In the transformed inputs, a wire on a placeholder key stands on that key
  unchanged, and a wire on another name whose (prefix-stripped) name has a mapping entry
  with a slot stands on that slot's key, provided no later input of the node entry
  resolves to the same key (the last one written wins); the input of a name with no
  mapping entry leaves no trace in the result.
\<close>

theorem connection_rewrite:
  assumes "nd_inputs nd = Some (pre @ (k, JArr link) # post)"
  shows "(connection_target (mapping_of ds) (k, JArr link) = Some t \<and>
          (\<forall>kv\<in>set post. connection_target (mapping_of ds) kv \<noteq> Some t) \<longrightarrow>
            obj_get (tn_inputs (transformDynamicNodeForExecution pf S nd ds)) t = Some (Copied (JArr link))) \<and>
         (is_placeholder_name k \<longrightarrow> connection_target (mapping_of ds) (k, JArr link) = Some k) \<and>
         (\<not> is_placeholder_name k \<and> obj_get (mapping_of ds) (clean_name k) = Some info \<and>
          placeholder info \<noteq> [] \<longrightarrow>
            connection_target (mapping_of ds) (k, JArr link) = Some (placeholder info)) \<and>
         (\<not> is_placeholder_name k \<and> obj_get (mapping_of ds) (clean_name k) = None \<longrightarrow>
            tn_inputs (transformDynamicNodeForExecution pf S nd ds) =
            tn_inputs (transformDynamicNodeForExecution pf S (nd\<lparr>nd_inputs := Some (pre @ post)\<rparr>) ds))"
proof (intro conjI impI)
  assume a: "connection_target (mapping_of ds) (k, JArr link) = Some t \<and>
          (\<forall>kv\<in>set post. connection_target (mapping_of ds) kv \<noteq> Some t)"
  then have "obj_get (foldl (map_connection (mapping_of ds))
            [(''model_id'', ModelId (ds_modelId ds)),
             (''request_json'', RequestJson (JSON_stringify_object (build_requestJson pf S ds))),
             (''param_map'', ParamMap (mapping_of ds))] (pre @ (k, JArr link) # post)) t =
        Some (Copied (snd (k, JArr link)))"
    by (intro foldl_map_connection_last) auto
  then show "obj_get (tn_inputs (transformDynamicNodeForExecution pf S nd ds)) t = Some (Copied (JArr link))"
    using assms by (simp add: tn_inputs_transform)
next
  assume "is_placeholder_name k"
  then show "connection_target (mapping_of ds) (k, JArr link) = Some k"
    by (simp add: connection_target_def)
next
  assume "\<not> is_placeholder_name k \<and> obj_get (mapping_of ds) (clean_name k) = Some info \<and>
          placeholder info \<noteq> []"
  then show "connection_target (mapping_of ds) (k, JArr link) = Some (placeholder info)"
    by (simp add: connection_target_def)
next
  assume "\<not> is_placeholder_name k \<and> obj_get (mapping_of ds) (clean_name k) = None"
  then have d: "connection_target (mapping_of ds) (k, JArr link) = None"
    by (simp add: connection_target_def)
  show "tn_inputs (transformDynamicNodeForExecution pf S nd ds) =
            tn_inputs (transformDynamicNodeForExecution pf S (nd\<lparr>nd_inputs := Some (pre @ post)\<rparr>) ds)"
    unfolding tn_inputs_transform assms
    by (simp add: foldl_map_connection_dropped[OF d] del: foldl_append)
qed

theorem connection_rewrite_witness:
  "obj_get (tn_inputs (transformDynamicNodeForExecution (\<lambda>s. None) (\<lambda>v. [])
      (example_nodeData [(''* prompt'', JArr [JStr ''5'', JNum 0]), (''param_2'', JArr [JStr ''7'', JNum 1]),
                         (''unmapped'', JArr [JStr ''9'', JNum 0])])
      (example_dynamicState (Some [(''prompt'', example_binding ''param_1'')])))) ''param_1'' =
     Some (Copied (JArr [JStr ''5'', JNum 0])) \<and>
   obj_get (tn_inputs (transformDynamicNodeForExecution (\<lambda>s. None) (\<lambda>v. [])
      (example_nodeData [(''* prompt'', JArr [JStr ''5'', JNum 0]), (''param_2'', JArr [JStr ''7'', JNum 1]),
                         (''unmapped'', JArr [JStr ''9'', JNum 0])])
      (example_dynamicState (Some [(''prompt'', example_binding ''param_1'')])))) ''param_2'' =
     Some (Copied (JArr [JStr ''7'', JNum 1]))"
proof -
  let ?ds = "example_dynamicState (Some [(''prompt'', example_binding ''param_1'')])"
  let ?c1 = "(''* prompt'', JArr [JStr ''5'', JNum 0])"
  let ?c2 = "(''param_2'', JArr [JStr ''7'', JNum 1])"
  let ?c3 = "(''unmapped'', JArr [JStr ''9'', JNum 0])"
  let ?nd = "example_nodeData [?c1, ?c2, ?c3]"
  have t1: "connection_target (mapping_of ?ds) ?c1 = Some ''param_1''" by code_simp
  have t2: "connection_target (mapping_of ?ds) ?c2 = Some ''param_2''" by code_simp
  have t3: "connection_target (mapping_of ?ds) ?c3 = None" by code_simp
  have i1: "nd_inputs ?nd = Some ([] @ (''* prompt'', JArr [JStr ''5'', JNum 0]) # [?c2, ?c3])"
    by (simp add: example_nodeData_def)
  have i2: "nd_inputs ?nd = Some ([?c1] @ (''param_2'', JArr [JStr ''7'', JNum 1]) # [?c3])"
    by (simp add: example_nodeData_def)
  have a: "obj_get (tn_inputs (transformDynamicNodeForExecution (\<lambda>s. None) (\<lambda>v. []) ?nd ?ds)) ''param_1''
           = Some (Copied (JArr [JStr ''5'', JNum 0]))"
    using connection_rewrite[OF i1, of ?ds "''param_1''" "(\<lambda>s. None)" "(\<lambda>v. [])"] t1 t2 t3 by simp
  have b: "obj_get (tn_inputs (transformDynamicNodeForExecution (\<lambda>s. None) (\<lambda>v. []) ?nd ?ds)) ''param_2''
           = Some (Copied (JArr [JStr ''7'', JNum 1]))"
    using connection_rewrite[OF i2, of ?ds "''param_2''" "(\<lambda>s. None)" "(\<lambda>v. [])"] t1 t2 t3 by simp
  show ?thesis using a b by (intro conjI)
qed

section \<open>Properties of the schema cache\<close>

lemma getCachedCategories_fetches:
  "snd (snd (getCachedCategories c now remote)) =
     (gc_categories c = None \<or> isCacheExpired c now (gc_lastCategoryUpdate c))"
  by (simp add: getCachedCategories_def Let_def split: option.splits)

lemma getCachedModelsByCategory_fetches:
  "snd (snd (getCachedModelsByCategory c now cat remote)) =
     (obj_get (gc_modelsByCategory c) cat = None \<or>
      isCacheExpired c now (case obj_get (gc_lastModelUpdate c) cat of Some t \<Rightarrow> t | None \<Rightarrow> 0))"
  by (simp add: getCachedModelsByCategory_def Let_def split: option.splits)

lemma getCachedModelDetail_fetches:
  "snd (snd (getCachedModelDetail c m remote)) = (obj_get (gc_modelDetails c) m = None)"
  by (simp add: getCachedModelDetail_def split: option.splits)

text \<open>
  C8 at a failing input. The two list reads ask the service exactly when they hold no
  entry or the entry is older than the expiry. \<^verbatim>\<open>getCachedModelDetail\<close> takes no clock:
  it asks the service exactly when it holds no entry, so a stored detail \<open>d\<close> is
  returned, with the cache unchanged and the service not asked, however long ago it
  was stored and whatever the service would answer now.
\<close>

theorem cached_model_detail_never_expires:
  "snd (snd (getCachedCategories c now remote1)) =
     (gc_categories c = None \<or> now - gc_lastCategoryUpdate c > gc_cacheExpiry c) \<and>
   snd (snd (getCachedModelsByCategory c now cat remote2)) =
     (obj_get (gc_modelsByCategory c) cat = None \<or>
      now - (case obj_get (gc_lastModelUpdate c) cat of Some t \<Rightarrow> t | None \<Rightarrow> 0) > gc_cacheExpiry c) \<and>
   snd (snd (getCachedModelDetail c m remote3)) = (obj_get (gc_modelDetails c) m = None) \<and>
   getCachedModelDetail (c\<lparr>gc_modelDetails := obj_set (gc_modelDetails c) m d\<rparr>) m remote3 =
     (Some d, c\<lparr>gc_modelDetails := obj_set (gc_modelDetails c) m d\<rparr>, False)"
  using getCachedCategories_fetches[of c now remote1]
        getCachedModelsByCategory_fetches[of c now cat remote2]
        getCachedModelDetail_fetches[of c m remote3]
  by (simp add: isCacheExpired_def getCachedModelDetail_def obj_get_obj_set)

section \<open>The pool across a model switch\<close>

lemma wavespeedState_update_widget [simp]:
  "wavespeedState (update_widget i f n) = wavespeedState n"
  by (simp add: update_widget_def)























section \<open>Initialization run twice\<close>






























lemma widgets_updateVisibleInputs [simp]: "widgets (updateVisibleInputs n) = widgets n"
  by (simp add: updateVisibleInputs_def Let_def)

lemma wavespeedState_updateVisibleInputs [simp]: "wavespeedState (updateVisibleInputs n) = wavespeedState n"
  by (simp add: updateVisibleInputs_def Let_def)




end
